theory Spec2Isabelle
  imports Complex_Main
begin

section \<open>Support-structure generation of PySLM (\<open>pyslm/support/support.py\<close>)\<close>

text \<open>
  The development embeds the parts of \<open>support.py\<close> that decide the behaviour of the
  block-support generator: the convenience methods of \<open>SupportStructure\<close>, the edge
  classifier \<open>findOverhangEdges\<close>, the depth-map combination and the region loop of
  \<open>BlockSupportGenerator.identifySupportRegions\<close>, and the tooth and grid parameters of
  \<open>GridBlockSupport\<close>.

  Floating-point numbers are read as real numbers. Calls into the geometry libraries
  (trimesh, shapely, the CSG backend, the rasteriser, scikit-image) are not part of
  \<open>support.py\<close>; what they return is an input of the model, carried by the records below.
  Every \<open>raise\<close> of the source and every Python run-time error that the modelled lines can
  produce is a value of the type \<open>error\<close>.
\<close>

subsection \<open>Errors and Python indexing\<close>

datatype error =
    IndexError
  | AttributeError
  | TypeError
  | UnboundLocalError
  | ArangeError
  | IncompatibleShapely
  | MultiPolygons

text \<open>\<open>xs[i]\<close> for a non-negative index: out of range raises \<open>IndexError\<close>.\<close>

definition getitem :: "'a list \<Rightarrow> nat \<Rightarrow> error + 'a" where
  "getitem xs i = (if i < length xs then Inr (xs ! i) else Inl IndexError)"

subsection \<open>Meshes and \<open>SupportStructure\<close>\<close>

type_synonym vec3 = "real \<times> real \<times> real"

text \<open>
  A shapely polygon as far as \<open>support.py\<close> reads it on this path: its \<open>area\<close>.
\<close>

record polygon =
  area :: real

text \<open>
  A \<open>trimesh.Trimesh\<close> as far as the modelled methods read it: its surface area
  (\<open>mesh.area\<close>), its bounding box (\<open>mesh.bounds\<close>, the rows \<open>[min, max]\<close>) and, for
  \<open>flattenSupportRegion\<close>, the list \<open>polygons_full\<close> of the flattened outline path.
\<close>

record mesh =
  mesh_area :: real
  bounds :: "vec3 \<times> vec3"
  polygons_full :: "polygon list"

text \<open>
  \<open>SupportStructure.flattenSupportRegion\<close>: the outline is flattened to \<open>z = 0\<close> and the
  first full polygon of the planar path is returned; \<open>polygons_full[0]\<close> raises on an
  empty list.
\<close>

definition flattenSupportRegion :: "mesh \<Rightarrow> error + polygon" where
  "flattenSupportRegion region = getitem (polygons_full region) 0"

text \<open>
  The attributes of \<open>SupportStructure.__init__\<close>; the private attribute \<open>_x\<close> is the
  field \<open>priv_x\<close>. The part (\<open>supportObject\<close>, type \<open>'p\<close>) is a back-reference that
  none of the modelled methods reads. The support volume has the type \<open>'v\<close>: a mesh
  whose bounding box is read by \<open>GridBlockSupport\<close>, and a description of how the volume
  was built for the blocks that \<open>identifySupportRegions\<close> emits.
\<close>

record ('p, 'v) supportStructure =
  priv_supportVolume :: "'v option"
  priv_supportObject :: "'p option"
  priv_supportSurface :: "mesh option"
  priv_intersectsPart :: bool

definition intersectsPart :: "('p, 'v, 'a) supportStructure_scheme \<Rightarrow> bool" where
  "intersectsPart self = priv_intersectsPart self"

text \<open>
  \<open>if self._supportSurface:\<close> tests the truth value of the attribute: \<open>None\<close> is false,
  a mesh object is true.
\<close>

definition projectedSupportArea :: "('p, 'v, 'a) supportStructure_scheme \<Rightarrow> error + real" where
  "projectedSupportArea self =
     (case priv_supportSurface self of
        Some surface \<Rightarrow>
          (case flattenSupportRegion surface of
             Inl e \<Rightarrow> Inl e
           | Inr p \<Rightarrow> Inr (area p))
      | None \<Rightarrow> Inr 0)"

definition supportArea :: "('p, 'v, 'a) supportStructure_scheme \<Rightarrow> real" where
  "supportArea self =
     (case priv_supportSurface self of
        Some surface \<Rightarrow> mesh_area surface
      | None \<Rightarrow> 0)"

subsection \<open>\<open>GridBlockSupport\<close>: tooth parameters and grid slices\<close>

text \<open>
  The attributes that \<open>GridBlockSupport.__init__\<close> adds, as far as the modelled methods
  read or write them. The property \<open>x\<close> is the function \<open>x\<close> (getter) and \<open>set_x\<close>
  (setter).
\<close>

record 'p gridBlockSupport = "('p, mesh) supportStructure" +
  priv_gridSpacing :: "real list"
  priv_supportTeethHeight :: real
  priv_supportTeethTopLength :: real
  priv_supportTeethBottomLength :: real
  priv_supportTeethBaseInterval :: real
  priv_supportTeethUpperPenetration :: real

definition GridBlockSupport_init ::
  "'p option \<Rightarrow> mesh option \<Rightarrow> mesh option \<Rightarrow> bool \<Rightarrow> 'p gridBlockSupport" where
  "GridBlockSupport_init supportObject supportVolume supportSurface intersects =
     \<lparr> priv_supportVolume = supportVolume,
       priv_supportObject = supportObject,
       priv_supportSurface = supportSurface,
       priv_intersectsPart = intersects,
       priv_gridSpacing = [3, 3],
       priv_supportTeethHeight = 1.5,
       priv_supportTeethTopLength = 0.1,
       priv_supportTeethBottomLength = 1.5,
       priv_supportTeethBaseInterval = 0.2,
       priv_supportTeethUpperPenetration = 0.2 \<rparr>"

definition supportTeethTopLength :: "'p gridBlockSupport \<Rightarrow> real" where
  "supportTeethTopLength self = priv_supportTeethTopLength self"

definition set_supportTeethTopLength :: "real \<Rightarrow> 'p gridBlockSupport \<Rightarrow> 'p gridBlockSupport" where
  "set_supportTeethTopLength topLength self =
     self\<lparr>priv_supportTeethTopLength := topLength\<rparr>"

definition supportTeethBottomLength :: "'p gridBlockSupport \<Rightarrow> real" where
  "supportTeethBottomLength self = priv_supportTeethTopLength self"

definition set_supportTeethBottomLength :: "real \<Rightarrow> 'p gridBlockSupport \<Rightarrow> 'p gridBlockSupport" where
  "set_supportTeethBottomLength bottomLength self =
     self\<lparr>priv_supportTeethBottomLength := bottomLength\<rparr>"

text \<open>
  \<open>toothProfile\<close>: the five vertices of the pattern, then \<open>toothPattern[:, 1] -= p_a\<close> and
  \<open>toothPattern[:, 1] += self._supportTeethUpperPenetration\<close> on the second column.
\<close>

definition toothProfile :: "'p gridBlockSupport \<Rightarrow> (real \<times> real) list" where
  "toothProfile self =
     (let p_a = priv_supportTeethHeight self;
          p_b = priv_supportTeethTopLength self;
          p_c = priv_supportTeethBottomLength self;
          p_d = priv_supportTeethBaseInterval self;
          toothPattern = [(0, 0),
                          ((p_c - p_b) / 2, p_a),
                          ((p_c - p_b) / 2 + p_b, p_a),
                          (p_c, 0),
                          (p_c + p_d, 0)];
          toothPattern1 = map (\<lambda>(x, y). (x, y - p_a)) toothPattern
      in map (\<lambda>(x, y). (x, y + priv_supportTeethUpperPenetration self)) toothPattern1)"

text \<open>
  \<open>np.arange(start, stop, step)\<close>: \<open>ceil((stop - start) / step)\<close> values
  \<open>start + i * step\<close>; a zero step raises.
\<close>

definition arange :: "real \<Rightarrow> real \<Rightarrow> real \<Rightarrow> error + real list" where
  "arange start stop step =
     (if step = 0 then Inl ArangeError
      else Inr (map (\<lambda>i. start + real i * step)
                  [0 ..< nat \<lceil>(stop - start) / step\<rceil>]))"

text \<open>
  A call \<open>supportGeom.section_multiplane(plane_origin, plane_normal, heights)\<close>: the
  sections are cut by trimesh at the planes \<open>plane_origin + h * plane_normal\<close>, one for
  each \<open>h\<close> of \<open>heights\<close>. The model returns the planes that are requested.
\<close>

record section_multiplane =
  plane_origin :: vec3
  plane_normal :: vec3
  heights :: "real list"

definition generateGridSlices ::
  "'p gridBlockSupport \<Rightarrow> error + (section_multiplane \<times> section_multiplane)" where
  "generateGridSlices self =
     (case priv_supportVolume self of
        None \<Rightarrow> Inl AttributeError
      | Some supportGeom \<Rightarrow>
         (case bounds supportGeom of ((x0, y0, z0), (x1, y1, z1)) \<Rightarrow>
           (case getitem (priv_gridSpacing self) 0 of Inl e \<Rightarrow> Inl e | Inr spacingX \<Rightarrow>
           (case getitem (priv_gridSpacing self) 1 of Inl e \<Rightarrow> Inl e | Inr spacingY \<Rightarrow>
             (let midX = (x0 + x1) / 2;
                  bottomX = - 1 * real_of_int \<lceil>(midX - x0) / spacingX\<rceil> * spacingX;
                  topX = 1 * real_of_int \<lceil>(x1 - midX) / spacingX\<rceil> * spacingX + 1 / 10 ^ 8
              in case arange bottomX topX spacingX of Inl e \<Rightarrow> Inl e | Inr heightsX \<Rightarrow>
                (let midY = (y0 + y1) / 2;
                     bottomY = - 1 * real_of_int \<lceil>(midY - y0) / spacingY\<rceil> * spacingY;
                     topY = 1 * real_of_int \<lceil>(y1 - midY) / spacingY\<rceil> * spacingY + 1 / 10 ^ 8
                 in case arange bottomY topY spacingY of Inl e \<Rightarrow> Inl e | Inr heightsY \<Rightarrow>
                   Inr (\<lparr> plane_origin = (midX, 0, 0), plane_normal = (1, 0, 0),
                           heights = heightsX \<rparr>,
                        \<lparr> plane_origin = (0, midY, 0), plane_normal = (0, 1, 0),
                           heights = heightsY \<rparr>)))))))"

subsection \<open>\<open>BaseSupportGenerator.findOverhangEdges\<close>\<close>

text \<open>
  The arrays of \<open>part.geometry\<close> that \<open>findOverhangEdges\<close> reads: \<open>vertices\<close>,
  \<open>edges_unique\<close> (pairs of vertex indices), \<open>face_adjacency\<close> (pairs of face indices)
  and \<open>face_adjacency_angles\<close> (radians).
\<close>

record trimesh =
  vertices :: "vec3 list"
  edges_unique :: "(nat \<times> nat) list"
  face_adjacency :: "(nat \<times> nat) list"
  face_adjacency_angles :: "real list"

record part =
  geometry :: trimesh

definition deg2rad :: "real \<Rightarrow> real" where
  "deg2rad x = x * (pi / 180)"

definition rad2deg :: "real \<Rightarrow> real" where
  "rad2deg x = x * (180 / pi)"

text \<open>\<open>edgeVerts = mesh.vertices[edges]\<close>: both end points of every edge, looked up first.\<close>

fun edgeVertices :: "vec3 list \<Rightarrow> (nat \<times> nat) list \<Rightarrow> error + (vec3 \<times> vec3) list" where
  "edgeVertices vs [] = Inr []"
| "edgeVertices vs ((a, b) # es) =
     (case getitem vs a of Inl e \<Rightarrow> Inl e | Inr va \<Rightarrow>
     (case getitem vs b of Inl e \<Rightarrow> Inl e | Inr vb \<Rightarrow>
     (case edgeVertices vs es of Inl e \<Rightarrow> Inl e | Inr rest \<Rightarrow> Inr ((va, vb) # rest))))"

text \<open>
  The vertical angle of an edge in degrees. \<open>delta[2] / mag\<close> is a floating-point
  division: for an edge of length zero it is \<open>nan\<close>, and so is the angle (\<open>None\<close> here).
\<close>

definition edgeAngle :: "vec3 \<times> vec3 \<Rightarrow> real option" where
  "edgeAngle edge =
     (case edge of ((x0, y0, z0), (x1, y1, z1)) \<Rightarrow>
        (let delta = (x0 - x1, y0 - y1, z0 - z1);
             mag = sqrt ((x0 - x1) * (x0 - x1) + (y0 - y1) * (y0 - y1) + (z0 - z1) * (z0 - z1))
         in if mag = 0 then None else Some (rad2deg (arcsin ((z0 - z1) / mag)))))"

text \<open>
  The body of the loop for the edge \<open>i\<close>: \<open>True\<close> when \<open>edges[i]\<close> is appended. A
  comparison with \<open>nan\<close> is false. \<open>and\<close> evaluates its right operand only when the left
  one holds.
\<close>

definition overhangEdgeTest ::
  "trimesh \<Rightarrow> real list \<Rightarrow> real \<Rightarrow> real \<Rightarrow> nat \<Rightarrow> vec3 \<times> vec3 \<Rightarrow> error + bool" where
  "overhangEdgeTest mesh theta overhangAngle edgeOverhangAngle i edge =
     (case edgeAngle edge of
        None \<Rightarrow> Inr False
      | Some ang \<Rightarrow>
          if \<bar>ang\<bar> < edgeOverhangAngle then
            (case getitem (face_adjacency mesh) i of Inl e \<Rightarrow> Inl e | Inr (f0, f1) \<Rightarrow>
            (case getitem (map rad2deg (face_adjacency_angles mesh)) i of
               Inl e \<Rightarrow> Inl e
             | Inr adjacentFaceAngle \<Rightarrow>
                 if adjacentFaceAngle > overhangAngle then
                   (case getitem theta f0 of Inl e \<Rightarrow> Inl e | Inr t0 \<Rightarrow>
                   (case getitem theta f1 of Inl e \<Rightarrow> Inl e | Inr t1 \<Rightarrow>
                      Inr (t0 > 89 \<and> t1 > 89)))
                 else Inr False))
          else Inr False)"

text \<open>\<open>for i in range(len(edgeVerts))\<close>, from the index \<open>i\<close> on, with the list built so far.\<close>

fun overhangEdgeLoop ::
  "trimesh \<Rightarrow> real list \<Rightarrow> real \<Rightarrow> real \<Rightarrow> nat \<Rightarrow> (vec3 \<times> vec3) list \<Rightarrow>
   (nat \<times> nat) list \<Rightarrow> error + (nat \<times> nat) list" where
  "overhangEdgeLoop mesh theta overhangAngle edgeOverhangAngle i [] overhangEdges =
     Inr overhangEdges"
| "overhangEdgeLoop mesh theta overhangAngle edgeOverhangAngle i (edge # rest) overhangEdges =
     (case overhangEdgeTest mesh theta overhangAngle edgeOverhangAngle i edge of
        Inl e \<Rightarrow> Inl e
      | Inr ok \<Rightarrow>
          overhangEdgeLoop mesh theta overhangAngle edgeOverhangAngle (Suc i) rest
            (if ok then overhangEdges @ [edges_unique mesh ! i] else overhangEdges))"

text \<open>
  \<open>findOverhangEdges\<close>. \<open>getSupportAngles\<close> is a function of \<open>pyslm.support.utils\<close>: it
  is a parameter, called with the part and the vector \<open>+z\<close>; it returns one angle in
  degrees for each face.
\<close>

definition findOverhangEdges ::
  "(part \<Rightarrow> vec3 \<Rightarrow> real list) \<Rightarrow> part \<Rightarrow> real \<Rightarrow> real \<Rightarrow> error + (nat \<times> nat) list" where
  "findOverhangEdges getSupportAngles part overhangAngle edgeOverhangAngle =
     (let mesh = geometry part;
          edges = edges_unique mesh
      in case edgeVertices (vertices mesh) edges of
           Inl e \<Rightarrow> Inl e
         | Inr edgeVerts \<Rightarrow>
             (let theta = getSupportAngles part (0, 0, 1)
              in overhangEdgeLoop mesh theta overhangAngle edgeOverhangAngle 0 edgeVerts []))"

subsection \<open>\<open>BlockSupportGenerator\<close>: parameters and the gradient threshold\<close>

record blockSupportGenerator =
  priv_minimumAreaThreshold :: real
  priv_rayProjectionResolution :: real
  priv_lowerProjectionOffset :: real
  priv_upperProjectionOffset :: real
  priv_innerSupportEdgeGap :: real
  priv_outerSupportEdgeGap :: real
  priv_triangulationSpacing :: real
  priv_simplifyPolygonFactor :: real
  priv_overhangAngle :: real
  priv_useApproxBasePlateSupport :: bool
  priv_splineSimplificationFactor :: real

definition BlockSupportGenerator_init :: blockSupportGenerator where
  "BlockSupportGenerator_init =
     \<lparr> priv_minimumAreaThreshold = 5.0,
       priv_rayProjectionResolution = 0.2,
       priv_lowerProjectionOffset = 0.05,
       priv_upperProjectionOffset = 0.05,
       priv_innerSupportEdgeGap = 0.2,
       priv_outerSupportEdgeGap = 0.5,
       priv_triangulationSpacing = 2,
       priv_simplifyPolygonFactor = 0.5,
       priv_overhangAngle = 45.0,
       priv_useApproxBasePlateSupport = False,
       priv_splineSimplificationFactor = 20.0 \<rparr>"

definition intersectionVolumeTolerance :: real where
  "intersectionVolumeTolerance = 50"

definition overhangAngle :: "'a blockSupportGenerator_scheme \<Rightarrow> real" where
  "overhangAngle self = priv_overhangAngle self"

definition minimumAreaThreshold :: "'a blockSupportGenerator_scheme \<Rightarrow> real" where
  "minimumAreaThreshold self = priv_minimumAreaThreshold self"

definition rayProjectionResolution :: "'a blockSupportGenerator_scheme \<Rightarrow> real" where
  "rayProjectionResolution self = priv_rayProjectionResolution self"

definition gradThreshold :: "real \<Rightarrow> real \<Rightarrow> real" where
  "gradThreshold rayProjectionDistance angle =
     5.0 * tan (deg2rad angle) * rayProjectionDistance"

subsection \<open>The height map of a candidate support column\<close>

text \<open>
  A two-dimensional array is the list of its rows. \<open>np.flipud\<close> reverses the rows,
  \<open>.T\<close> transposes.
\<close>

type_synonym image = "real list list"

definition flipud :: "image \<Rightarrow> image" where
  "flipud img = rev img"

text \<open>\<open>target[mask] = source[mask]\<close> on arrays of one shape.\<close>

definition assignMasked :: "image \<Rightarrow> bool list list \<Rightarrow> image \<Rightarrow> image" where
  "assignMasked target selected source =
     map (\<lambda>(trow, mrow, srow).
            map (\<lambda>(t, m, s). if m then s else t) (zip trow (zip mrow srow)))
         (zip target (zip selected source))"

text \<open>
  \<open>_identifySelfIntersectionHeightMap\<close>. The two calls of
  \<open>pyslm.support.render.projectHeightMap\<close> (on the overhang patch, and on the upper faces
  of the cut mesh with the flip flag set) are made by the rasteriser; the arrays they return
  are the arguments \<open>upperProjection\<close> and \<open>lowerProjection\<close>. Indexing \<open>heightMap2\<close>
  with a Boolean mask of another shape raises \<open>IndexError\<close>.
\<close>

definition identifySelfIntersectionHeightMap ::
  "image \<Rightarrow> image \<Rightarrow> error + (image \<times> image \<times> image)" where
  "identifySelfIntersectionHeightMap upperProjection lowerProjection =
     (let upperImg = upperProjection;
          lowerImg = flipud lowerProjection;
          heightMap2 = upperImg;
          mask = map (map (\<lambda>v. v > 1.01)) lowerImg
      in if map length mask \<noteq> map length heightMap2 then Inl IndexError
         else Inr (transpose (assignMasked heightMap2 mask lowerImg), upperImg, lowerImg))"

text \<open>
  \<open>np.pad(heightMap, ((2, 2), (2, 2)), 'constant', constant_values=((1, 1), (1, 1)))\<close>.
\<close>

definition padHeightMap :: "image \<Rightarrow> image" where
  "padHeightMap heightMap =
     (let width = (case heightMap of [] \<Rightarrow> 0 | row # _ \<Rightarrow> length row) + 4;
          border = replicate 2 (replicate width 1)
      in border @ map (\<lambda>row. [1, 1] @ row @ [1, 1]) heightMap @ border)"

subsection \<open>The region loop of \<open>identifySupportRegions\<close>\<close>

text \<open>
  What the geometry backends return for one triangulated polygon \<open>bufferPoly\<close> of the
  second inner loop: its area, the number of triangulated vertices (\<open>len(coords)\<close>), the
  number of hits of the upward rays on the overhang patch (\<open>len(hitLoc)\<close>) and the number
  of hits that the downward rays on \<open>cutMeshUpper\<close> have when they are cast.
\<close>

record bufferPolygon =
  bufferArea :: real
  coords :: nat
  hitLoc :: nat
  hitLoc2 :: nat

datatype bufferShape = BufferPolygon bufferPolygon | BufferMultiPolygon "bufferPolygon list"

text \<open>
  One outline of \<open>outlinePolygons\<close> after \<open>load_path\<close>, \<open>merge_vertices\<close> and
  \<open>simplify_spline\<close>: the value of \<open>mergedPoly.polygons_full\<close> (\<open>None\<close> when reading the
  property raises; an entry of the list may itself be \<open>None\<close>), \<open>mergedPoly.is_closed\<close>, and
  the shape that simplifying and shrinking \<open>polygons_full[0]\<close> gives.
\<close>

record outlinePath =
  outPolygons :: "polygon option list option"
  is_closed :: bool
  bufferPoly :: bufferShape

text \<open>
  The shape \<open>offsetShape\<close> of a region: a polygon, or a multi-polygon whose parts are
  loaded as paths (\<open>triPath\<close>) with \<open>is_closed\<close> and \<open>area\<close>.
\<close>

record triPath =
  path_is_closed :: bool
  path_area :: real

datatype offsetShape =
    OffsetPolygon real
  | OffsetMultiPolygon real "triPath list"

fun shape_area :: "offsetShape \<Rightarrow> real" where
  "shape_area (OffsetPolygon a) = a"
| "shape_area (OffsetMultiPolygon a geoms) = a"

text \<open>
  One overhang subregion with what the backends return for it: the patch itself
  (\<open>subregion\<close>), the simplified and shrunk flattened polygon (\<open>offsetShape\<close>, possibly
  \<open>None\<close>), the volume of \<open>cutMesh = boolIntersect(part.geometry, extruMesh)\<close>, the two
  rasterised projections, and the outlines that the contour extraction
  (\<open>np.gradient\<close>, \<open>gaussian_filter\<close>, \<open>find_contours\<close>, \<open>pathsToClosedPolygons\<close>) gives
  for a padded height map, a contour level and a mask.
\<close>

record overhangSubregion =
  subregion :: mesh
  offsetShape :: "offsetShape option"
  cutMesh_volume :: real
  upperProjection :: image
  lowerProjection :: image
  find_contours :: "image \<Rightarrow> real \<Rightarrow> bool list list \<Rightarrow> outlinePath list"

text \<open>
  The support volume of an emitted block: the prism \<open>extruMesh\<close> under the whole patch,
  or \<open>boolDiff(extrudedBlock, cutMesh)\<close> where \<open>extrudedBlock\<close> stands on \<open>bufferPoly\<close>,
  its lower cap \<open>coords3\<close> either left at \<open>z = 0\<close> (the base plate) or moved to the hits on
  \<open>cutMeshUpper\<close>.
\<close>

datatype lowerCap = BasePlate | OnCutMesh

datatype blockVolume = ExtruMesh | BlockSupportMesh bufferPolygon lowerCap

type_synonym 'p blockSupportBase = "('p, blockVolume) supportStructure"

definition BlockSupportBase ::
  "'p \<Rightarrow> blockVolume \<Rightarrow> mesh \<Rightarrow> bool \<Rightarrow> 'p blockSupportBase" where
  "BlockSupportBase supportObject supportVolume supportSurface intersects =
     \<lparr> priv_supportVolume = Some supportVolume,
       priv_supportObject = Some supportObject,
       priv_supportSurface = Some supportSurface,
       priv_intersectsPart = intersects \<rparr>"

text \<open>\<open>for outline in outlinePolygons\<close>, with the list \<open>polygons\<close> built so far.\<close>

fun outlineLoop :: "outlinePath list \<Rightarrow> bufferPolygon list \<Rightarrow> error + bufferPolygon list" where
  "outlineLoop [] polygons = Inr polygons"
| "outlineLoop (mergedPoly # rest) polygons =
     (case outPolygons mergedPoly of
        None \<Rightarrow> Inl IncompatibleShapely
      | Some ps \<Rightarrow>
          if \<not> is_closed mergedPoly \<or> length ps = 0 \<or> hd ps = None then
            outlineLoop rest polygons
          else if length ps > 1 then Inl MultiPolygons
          else (case bufferPoly mergedPoly of
                  BufferMultiPolygon geoms \<Rightarrow> outlineLoop rest (polygons @ geoms)
                | BufferPolygon p \<Rightarrow> outlineLoop rest (polygons @ [p])))"

text \<open>
  \<open>for bufferPoly in polygons\<close>, with the blocks emitted so far. When the cut mesh is
  below the tolerance the downward rays are not cast and \<open>hitLoc2\<close> is the empty Python
  list, which \<open>hitLoc2[:, 2]\<close> cannot index.
\<close>

fun supportLoop ::
  "'a blockSupportGenerator_scheme \<Rightarrow> 'p \<Rightarrow> overhangSubregion \<Rightarrow> bufferPolygon list \<Rightarrow>
   'p blockSupportBase list \<Rightarrow> error + 'p blockSupportBase list" where
  "supportLoop self part r [] blocks = Inr blocks"
| "supportLoop self part r (bp # rest) blocks =
     (if bufferArea bp < minimumAreaThreshold self then supportLoop self part r rest blocks
      else
        (let cast = (cutMesh_volume r > intersectionVolumeTolerance);
             len_hitLoc2 = (if cast then hitLoc2 bp else 0)
         in if hitLoc bp \<noteq> coords bp \<or> len_hitLoc2 \<noteq> hitLoc bp then
              (if len_hitLoc2 = 0 then
                 supportLoop self part r rest
                   (blocks @ [BlockSupportBase part (BlockSupportMesh bp BasePlate)
                                (subregion r) True])
               else supportLoop self part r rest blocks)
            else if \<not> cast then Inl TypeError
            else supportLoop self part r rest
                   (blocks @ [BlockSupportBase part (BlockSupportMesh bp OnCutMesh)
                                (subregion r) True])))"

text \<open>
  The contour extraction of one region: the level is \<open>gradThreshold\<close> of the generator's
  own \<open>rayProjectionResolution\<close> and \<open>overhangAngle\<close>, the mask is \<open>heightMap > 2\<close> on the
  padded height map.
\<close>

definition segmentOutlines ::
  "'a blockSupportGenerator_scheme \<Rightarrow> overhangSubregion \<Rightarrow> image \<Rightarrow> outlinePath list" where
  "segmentOutlines self r heightMap0 =
     (let heightMap = padHeightMap heightMap0
      in find_contours r heightMap
           (gradThreshold (rayProjectionResolution self) (overhangAngle self))
           (map (map (\<lambda>h. h > 2)) heightMap))"

text \<open>
  The body of \<open>for subregion in overhangSubregions\<close>. The local variable \<open>offsetPoly\<close>
  is assigned only in the branch of a single polygon; \<open>bound\<close> says whether an earlier
  iteration has assigned it. The result is the new value of \<open>bound\<close> and the blocks that
  this region appends.
\<close>

definition processRegion ::
  "'a blockSupportGenerator_scheme \<Rightarrow> 'p \<Rightarrow> bool \<Rightarrow> bool \<Rightarrow> overhangSubregion \<Rightarrow>
   error + (bool \<times> 'p blockSupportBase list)" where
  "processRegion self part findSelfIntersectingSupport bound r =
     (case flattenSupportRegion (subregion r) of
        Inl e \<Rightarrow> Inr (bound, [])
      | Inr polygon \<Rightarrow>
     (case offsetShape r of
        None \<Rightarrow> Inr (bound, [])
      | Some shape \<Rightarrow>
     if shape_area shape < minimumAreaThreshold self then Inr (bound, [])
     else
     (case (case shape of
              OffsetMultiPolygon a geoms \<Rightarrow>
                (let offsetPolyList =
                       filter (\<lambda>triPath. path_is_closed triPath \<and>
                                 path_area triPath > minimumAreaThreshold self) geoms
                 in if offsetPolyList = [] then Inr None
                    else if tl offsetPolyList \<noteq> [] \<and> \<not> bound then Inl UnboundLocalError
                    else Inr (Some bound))
            | OffsetPolygon a \<Rightarrow> Inr (Some True)) of
        Inl e \<Rightarrow> Inl e
      | Inr None \<Rightarrow> Inr (bound, [])
      | Inr (Some bound') \<Rightarrow>
     if cutMesh_volume r < intersectionVolumeTolerance \<and> priv_useApproxBasePlateSupport self
     then Inr (bound', [BlockSupportBase part ExtruMesh (subregion r) False])
     else if \<not> cutMesh_volume r < intersectionVolumeTolerance \<and> \<not> findSelfIntersectingSupport
     then Inr (bound', [])
     else if \<not> bound' then Inl UnboundLocalError
     else
     (case identifySelfIntersectionHeightMap (upperProjection r) (lowerProjection r) of
        Inl e \<Rightarrow> Inl e
      | Inr (heightMap, heightMapUpper, heightMapLower) \<Rightarrow>
     (case outlineLoop (segmentOutlines self r heightMap) [] of
        Inl e \<Rightarrow> Inl e
      | Inr polygons \<Rightarrow>
     (case supportLoop self part r polygons [] of
        Inl e \<Rightarrow> Inl e
      | Inr blocks \<Rightarrow> Inr (bound', blocks)))))))"

fun regionLoop ::
  "'a blockSupportGenerator_scheme \<Rightarrow> 'p \<Rightarrow> bool \<Rightarrow> bool \<Rightarrow> overhangSubregion list \<Rightarrow>
   'p blockSupportBase list \<Rightarrow> error + (bool \<times> 'p blockSupportBase list)" where
  "regionLoop self part findSelfIntersectingSupport bound [] supportBlockRegions =
     Inr (bound, supportBlockRegions)"
| "regionLoop self part findSelfIntersectingSupport bound (r # rest) supportBlockRegions =
     (case processRegion self part findSelfIntersectingSupport bound r of
        Inl e \<Rightarrow> Inl e
      | Inr (bound', blocks) \<Rightarrow>
          regionLoop self part findSelfIntersectingSupport bound' rest
            (supportBlockRegions @ blocks))"

text \<open>
  \<open>identifySupportRegions\<close>. \<open>getOverhangMesh\<close> is a function of
  \<open>pyslm.support.utils\<close> and a parameter here; the argument \<open>angle\<close> of the method
  (\<open>overhangAngle\<close> in the source) is passed to it and read nowhere else.
\<close>

definition identifySupportRegions ::
  "('p \<Rightarrow> real \<Rightarrow> bool \<Rightarrow> overhangSubregion list) \<Rightarrow> 'a blockSupportGenerator_scheme \<Rightarrow>
   'p \<Rightarrow> real \<Rightarrow> bool \<Rightarrow> error + 'p blockSupportBase list" where
  "identifySupportRegions getOverhangMesh self part angle findSelfIntersectingSupport =
     (let overhangSubregions = getOverhangMesh part angle True
      in case regionLoop self part findSelfIntersectingSupport False overhangSubregions [] of
           Inl e \<Rightarrow> Inl e
         | Inr (bound, supportBlockRegions) \<Rightarrow> Inr supportBlockRegions)"

subsection \<open>\<open>GridBlockSupportGenerator\<close>: tooth parameters\<close>

text \<open>
  The generator keeps its own copy of the tooth parameters and hands them to every grid
  block it creates; its properties have the same names as those of \<open>GridBlockSupport\<close>
  and are prefixed with \<open>gen_\<close> here.
\<close>

record gridBlockSupportGenerator = blockSupportGenerator +
  priv_gen_supportTeethHeight :: real
  priv_gen_supportTeethTopLength :: real
  priv_gen_supportTeethBottomLength :: real
  priv_gen_supportTeethBaseInterval :: real
  priv_gen_supportTeethUpperPenetration :: real

definition GridBlockSupportGenerator_init :: gridBlockSupportGenerator where
  "GridBlockSupportGenerator_init =
     \<lparr> priv_minimumAreaThreshold = 5.0,
       priv_rayProjectionResolution = 0.2,
       priv_lowerProjectionOffset = 0.05,
       priv_upperProjectionOffset = 0.05,
       priv_innerSupportEdgeGap = 0.2,
       priv_outerSupportEdgeGap = 0.5,
       priv_triangulationSpacing = 2,
       priv_simplifyPolygonFactor = 0.5,
       priv_overhangAngle = 45.0,
       priv_useApproxBasePlateSupport = False,
       priv_splineSimplificationFactor = 20.0,
       priv_gen_supportTeethHeight = 1.5,
       priv_gen_supportTeethTopLength = 0.1,
       priv_gen_supportTeethBottomLength = 1.5,
       priv_gen_supportTeethBaseInterval = 0.2,
       priv_gen_supportTeethUpperPenetration = 0.2 \<rparr>"

definition gen_supportTeethTopLength :: "gridBlockSupportGenerator \<Rightarrow> real" where
  "gen_supportTeethTopLength self = priv_gen_supportTeethTopLength self"

definition gen_set_supportTeethTopLength ::
  "real \<Rightarrow> gridBlockSupportGenerator \<Rightarrow> gridBlockSupportGenerator" where
  "gen_set_supportTeethTopLength topLength self =
     self\<lparr>priv_gen_supportTeethTopLength := topLength\<rparr>"

definition gen_supportTeethBottomLength :: "gridBlockSupportGenerator \<Rightarrow> real" where
  "gen_supportTeethBottomLength self = priv_gen_supportTeethTopLength self"

definition gen_set_supportTeethBottomLength ::
  "real \<Rightarrow> gridBlockSupportGenerator \<Rightarrow> gridBlockSupportGenerator" where
  "gen_set_supportTeethBottomLength bottomLength self =
     self\<lparr>priv_gen_supportTeethBottomLength := bottomLength\<rparr>"

subsection \<open>Conditions on edges, as predicates\<close>

text \<open>
  The condition on the edge \<open>i\<close> of a mesh whose arrays are aligned (the edge
  \<open>edges_unique[i]\<close> lies between the two faces \<open>face_adjacency[i]\<close>): the inclination of
  the edge is below \<open>edgeAng\<close> in magnitude, both faces are inclined by more than
  \<open>faceAngle\<close>, and the angle between the faces exceeds \<open>surfaceAngle\<close>.
\<close>

definition overhangEdgeCondition ::
  "real \<Rightarrow> trimesh \<Rightarrow> real list \<Rightarrow> real \<Rightarrow> real \<Rightarrow> nat \<Rightarrow> bool" where
  "overhangEdgeCondition faceAngle mesh theta surfaceAngle edgeAng i =
     (case edges_unique mesh ! i of (a, b) \<Rightarrow>
     (case face_adjacency mesh ! i of (f0, f1) \<Rightarrow>
        (case edgeAngle (vertices mesh ! a, vertices mesh ! b) of
           None \<Rightarrow> False
         | Some ang \<Rightarrow> \<bar>ang\<bar> < edgeAng) \<and>
        theta ! f0 > faceAngle \<and> theta ! f1 > faceAngle \<and>
        rad2deg (face_adjacency_angles mesh ! i) > surfaceAngle))"

text \<open>
  The specification of \<open>findOverhangEdges\<close> in its own words: both incident faces exceed
  \<open>surfaceAngle\<close>.
\<close>

definition overhangEdgeSpec :: "trimesh \<Rightarrow> real list \<Rightarrow> real \<Rightarrow> real \<Rightarrow> nat \<Rightarrow> bool" where
  "overhangEdgeSpec mesh theta surfaceAngle edgeAng i =
     overhangEdgeCondition surfaceAngle mesh theta surfaceAngle edgeAng i"

text \<open>
  Every index stored in the arrays is in range, and the adjacency arrays have one entry
  for each unique edge (as they have on a watertight mesh).
\<close>

definition indicesInRange :: "trimesh \<Rightarrow> real list \<Rightarrow> bool" where
  "indicesInRange mesh theta =
     ((\<forall>(a, b)\<in>set (edges_unique mesh).
         a < length (vertices mesh) \<and> b < length (vertices mesh)) \<and>
      length (face_adjacency mesh) = length (edges_unique mesh) \<and>
      length (face_adjacency_angles mesh) = length (edges_unique mesh) \<and>
      (\<forall>(f0, f1)\<in>set (face_adjacency mesh). f0 < length theta \<and> f1 < length theta))"

subsection \<open>Example inputs\<close>

text \<open>
  A prism with a gable roof standing on the build plate: the ridge from \<open>(0, 0, 4)\<close> to
  \<open>(12, 0, 4)\<close>, the eaves at \<open>y = 3\<close> and \<open>y = -3\<close> on \<open>z = 0\<close>. Its eight faces are
  four roof triangles (0 to 3, inclined by 53.13 degrees from \<open>+z\<close>), the two gables
  (4 and 5, vertical) and two floor triangles (6 and 7, facing down). The twelve unique
  edges are listed with the pair of faces that meet in each and the angle between them.
\<close>

definition gablePrism :: part where
  "gablePrism =
     \<lparr> geometry =
         \<lparr> vertices = [(0, 0, 4), (12, 0, 4), (0, 3, 0), (0, -3, 0), (12, 3, 0), (12, -3, 0)],
           edges_unique = [(0, 1), (0, 2), (0, 3), (0, 4), (1, 3), (1, 4),
                           (1, 5), (2, 3), (2, 4), (2, 5), (3, 5), (4, 5)],
           face_adjacency = [(0, 2), (1, 4), (2, 4), (0, 1), (2, 3), (0, 5),
                             (3, 5), (4, 7), (1, 6), (6, 7), (3, 7), (5, 6)],
           face_adjacency_angles = [1.8546, 1.5708, 1.5708, 0, 0, 1.5708,
                                    1.5708, 1.5708, 2.2143, 0, 2.2143, 1.5708] \<rparr> \<rparr>"

definition gablePrismAngles :: "part \<Rightarrow> vec3 \<Rightarrow> real list" where
  "gablePrismAngles p v = [53.13, 53.13, 53.13, 53.13, 90, 90, 180, 180]"

text \<open>
  A cantilever: the underside of a 20 by 10 mm plate at \<open>z = 10\<close>, with nothing of the
  part below it. Its column reaches the build plate: the prism under the patch does not cut
  the part (\<open>cutMesh.volume = 0\<close>), the contour extraction gives one closed outline, and all
  sixty triangulated vertices hit the patch from below.
\<close>

definition cantileverPatch :: mesh where
  "cantileverPatch =
     \<lparr> mesh_area = 192, bounds = ((-10, -5, 10), (10, 5, 10)),
       polygons_full = [\<lparr> area = 192 \<rparr>] \<rparr>"

definition cantileverColumn :: bufferPolygon where
  "cantileverColumn = \<lparr> bufferArea = 160, coords = 60, hitLoc = 60, hitLoc2 = 0 \<rparr>"

definition cantileverOutline :: outlinePath where
  "cantileverOutline =
     \<lparr> outPolygons = Some [Some \<lparr> area = 165 \<rparr>], is_closed = True,
       bufferPoly = BufferPolygon cantileverColumn \<rparr>"

definition cantileverRegion :: overhangSubregion where
  "cantileverRegion =
     \<lparr> subregion = cantileverPatch,
       offsetShape = Some (OffsetPolygon 171),
       cutMesh_volume = 0,
       upperProjection = [[10, 10], [10, 10]],
       lowerProjection = [[0, 0], [0, 0]],
       find_contours = (\<lambda>heightMap level selected. [cantileverOutline]) \<rparr>"

text \<open>
  An overhang above another surface of the part: the prism under it cuts the part
  (\<open>cutMesh.volume = 400\<close>) and the downward rays all hit the cut mesh.
\<close>

definition shelfPatch :: mesh where
  "shelfPatch =
     \<lparr> mesh_area = 100, bounds = ((20, -5, 30), (30, 5, 30)),
       polygons_full = [\<lparr> area = 100 \<rparr>] \<rparr>"

definition shelfColumn :: bufferPolygon where
  "shelfColumn = \<lparr> bufferArea = 70, coords = 30, hitLoc = 30, hitLoc2 = 30 \<rparr>"

definition shelfRegion :: overhangSubregion where
  "shelfRegion =
     \<lparr> subregion = shelfPatch,
       offsetShape = Some (OffsetPolygon 81),
       cutMesh_volume = 400,
       upperProjection = [[30, 30], [30, 30]],
       lowerProjection = [[26, 26], [26, 26]],
       find_contours =
         (\<lambda>heightMap level selected.
            [\<lparr> outPolygons = Some [Some \<lparr> area = 75 \<rparr>], is_closed = True,
               bufferPoly = BufferPolygon shelfColumn \<rparr>]) \<rparr>"




text \<open>A block whose support volume has a bounding box of 10 by 10 by 10 mm about the origin.\<close>

definition block10 :: mesh where
  "block10 = \<lparr> mesh_area = 600, bounds = ((-5, -5, 0), (5, 5, 10)),
               polygons_full = [\<lparr> area = 100 \<rparr>] \<rparr>"

definition gridBlock10 :: "string gridBlockSupport" where
  "gridBlock10 = GridBlockSupport_init None (Some block10) None False"

section \<open>Properties\<close>

subsection \<open>Convenience methods of \<open>SupportStructure\<close>\<close>

text \<open>
  Claim C10. With the support surface unset, \<open>projectedSupportArea\<close> and \<open>supportArea\<close>
  both return \<open>0.0\<close> and do not fail. With a support surface set, \<open>supportArea\<close> returns
  the surface area of the mesh and \<open>projectedSupportArea\<close> the area of the flattened
  polygon (the first full polygon of the flattened outline; when the outline holds none,
  the \<open>IndexError\<close> of \<open>flattenSupportRegion\<close> is what the caller gets).
\<close>

theorem support_areas:
  "(priv_supportSurface self = None \<longrightarrow>
      projectedSupportArea self = Inr 0 \<and> supportArea self = 0) \<and>
   (priv_supportSurface self = Some surface \<longrightarrow>
      supportArea self = mesh_area surface \<and>
      (\<forall>p ps. polygons_full surface = p # ps \<longrightarrow> projectedSupportArea self = Inr (area p)) \<and>
      (polygons_full surface = [] \<longrightarrow> projectedSupportArea self = Inl IndexError))"
  by (simp add: projectedSupportArea_def supportArea_def flattenSupportRegion_def getitem_def)

theorem support_areas_witness:
  "projectedSupportArea gridBlock10 = Inr 0 \<and> supportArea gridBlock10 = 0 \<and>
   supportArea (BlockSupportBase ''plate'' ExtruMesh cantileverPatch False) = 192 \<and>
   projectedSupportArea (BlockSupportBase ''plate'' ExtruMesh cantileverPatch False) = Inr 192"
proof -
  have unset: "priv_supportSurface gridBlock10 = None"
    by (simp add: gridBlock10_def GridBlockSupport_init_def)
  have set: "priv_supportSurface (BlockSupportBase ''plate'' ExtruMesh cantileverPatch False) =
      Some cantileverPatch"
    by (simp add: BlockSupportBase_def)
  have outline: "polygons_full cantileverPatch = \<lparr> area = 192 \<rparr> # []"
    by (simp add: cantileverPatch_def)
  from support_areas [of gridBlock10 cantileverPatch] unset
  have a: "projectedSupportArea gridBlock10 = Inr 0 \<and> supportArea gridBlock10 = 0"
    by simp
  from support_areas [of "BlockSupportBase ''plate'' ExtruMesh cantileverPatch False"
      cantileverPatch] set outline
  have b: "supportArea (BlockSupportBase ''plate'' ExtruMesh cantileverPatch False) = 192 \<and>
      projectedSupportArea (BlockSupportBase ''plate'' ExtruMesh cantileverPatch False) = Inr 192"
    by (simp add: cantileverPatch_def)
  from a b show ?thesis by simp
qed

subsection \<open>The tooth profile and the tooth lengths\<close>

text \<open>
  Claim C5. With \<open>a = supportTeethHeight\<close>, \<open>b = supportTeethTopLength\<close>,
  \<open>c = supportTeethBottomLength\<close> and \<open>d = supportTeethBaseInterval\<close>, \<open>toothProfile\<close>
  returns exactly the five vertices \<open>(0, 0)\<close>, \<open>((c - b) / 2, a)\<close>,
  \<open>((c - b) / 2 + b, a)\<close>, \<open>(c, 0)\<close>, \<open>(c + d, 0)\<close>, the second coordinate of each
  shifted by \<open>- a + supportTeethUpperPenetration\<close>.
\<close>

theorem toothProfile_vertices:
  "toothProfile self =
     (let a = priv_supportTeethHeight self;
          b = priv_supportTeethTopLength self;
          c = priv_supportTeethBottomLength self;
          d = priv_supportTeethBaseInterval self;
          shift = - a + priv_supportTeethUpperPenetration self
      in [(0, 0 + shift),
          ((c - b) / 2, a + shift),
          ((c - b) / 2 + b, a + shift),
          (c, 0 + shift),
          (c + d, 0 + shift)])"
  by (simp add: toothProfile_def Let_def)

text \<open>
  Claim C6. After setting \<open>supportTeethBottomLength\<close> to a value, reading the property
  should return that value whatever \<open>supportTeethTopLength\<close> holds. Both getters return
  the top length instead: on a fresh \<open>GridBlockSupport\<close> and on a fresh
  \<open>GridBlockSupportGenerator\<close> (top length \<open>0.1\<close>), setting the bottom length to \<open>2\<close>
  and reading it back gives \<open>0.1\<close>, although the attribute itself holds \<open>2\<close>.
\<close>

theorem supportTeethBottomLength_reads_top_length:
  "supportTeethBottomLength
     (set_supportTeethBottomLength 2
        (GridBlockSupport_init (None :: string option) None None False)) = 0.1 \<and>
   priv_supportTeethBottomLength
     (set_supportTeethBottomLength 2
        (GridBlockSupport_init (None :: string option) None None False)) = 2 \<and>
   gen_supportTeethBottomLength
     (gen_set_supportTeethBottomLength 2 GridBlockSupportGenerator_init) = 0.1 \<and>
   priv_gen_supportTeethBottomLength
     (gen_set_supportTeethBottomLength 2 GridBlockSupportGenerator_init) = 2"
  by (simp add: supportTeethBottomLength_def set_supportTeethBottomLength_def
      GridBlockSupport_init_def gen_supportTeethBottomLength_def
      gen_set_supportTeethBottomLength_def GridBlockSupportGenerator_init_def)

subsection \<open>Grid slices\<close>

lemma ceiling_five_thirds: "\<lceil>(5::real) / 3\<rceil> = 2"
  by (simp add: ceiling_eq_iff)

lemma ceiling_slice_count: "\<lceil>(6 + 1 / 10 ^ 8 + 6 :: real) / 3\<rceil> = 5"
  by (simp add: ceiling_eq_iff)

lemma arange_about_zero:
  assumes s: "1 / 10 ^ 8 \<le> s"
  shows "arange (- 1 * real k * s) (1 * real k * s + 1 / 10 ^ 8) s =
           Inr (map (\<lambda>i. (real i - real k) * s) [0 ..< 2 * k + 1])"
proof -
  have pos: "0 < s" using s by (rule less_le_trans [rotated]) simp
  let ?q = "(1 * real k * s + 1 / 10 ^ 8 - - 1 * real k * s) / s"
  have q: "?q = 2 * real k + (1 / 10 ^ 8) / s"
    using pos by (simp add: field_simps)
  have "0 < (1 / 10 ^ 8) / s" using pos by simp
  moreover have "(1 / 10 ^ 8) / s \<le> 1" using s pos by (simp add: field_simps)
  ultimately have "real_of_int (int (2 * k + 1)) - 1 < ?q \<and> ?q \<le> real_of_int (int (2 * k + 1))"
    unfolding q by simp
  then have "\<lceil>?q\<rceil> = int (2 * k + 1)"
    by (intro ceiling_unique) simp_all
  then have n: "nat \<lceil>?q\<rceil> = 2 * k + 1" by simp
  have "map (\<lambda>i. - 1 * real k * s + real i * s) [0 ..< 2 * k + 1] =
      map (\<lambda>i. (real i - real k) * s) [0 ..< 2 * k + 1]"
    by (simp add: algebra_simps)
  with n pos show ?thesis
    unfolding arange_def by simp
qed

lemma arange_about_centre:
  assumes "a \<le> b" "1 / 10 ^ 8 \<le> s"
  shows "arange (- 1 * real_of_int \<lceil>((a + b) / 2 - a) / s\<rceil> * s)
           (1 * real_of_int \<lceil>(b - (a + b) / 2) / s\<rceil> * s + 1 / 10 ^ 8) s =
         Inr (map (\<lambda>i. (real i - real (nat \<lceil>(b - a) / 2 / s\<rceil>)) * s)
                [0 ..< 2 * nat \<lceil>(b - a) / 2 / s\<rceil> + 1])"
proof -
  have pos: "0 < s" using assms(2) by (rule less_le_trans [rotated]) simp
  have lo: "((a + b) / 2 - a) / s = (b - a) / 2 / s" by (simp add: field_simps)
  have hi: "(b - (a + b) / 2) / s = (b - a) / 2 / s" by (simp add: field_simps)
  have "0 \<le> (b - a) / 2 / s" using pos assms(1) by simp
  then have "0 \<le> \<lceil>(b - a) / 2 / s\<rceil>" by (metis ceiling_mono ceiling_zero)
  then have k: "real_of_int \<lceil>(b - a) / 2 / s\<rceil> = real (nat \<lceil>(b - a) / 2 / s\<rceil>)"
    by simp
  show ?thesis
    unfolding lo hi k by (rule arange_about_zero [OF assms(2)])
qed

text \<open>
  For a grid spacing of at least \<open>1e-8\<close> the offsets of the slices are the multiples
  \<open>(i - k) * spacing\<close>, \<open>i = 0, ..., 2 * k\<close>, where \<open>k\<close> is half the width of the
  bounding box divided by the spacing, rounded up: as many planes on one side of the centre
  as on the other, and one through it.
\<close>

lemma generateGridSlices_symmetric:
  assumes vol: "priv_supportVolume self = Some supportGeom"
    and box: "bounds supportGeom = ((x0, y0, z0), (x1, y1, z1))" "x0 \<le> x1" "y0 \<le> y1"
    and grid: "priv_gridSpacing self = [sx, sy]" "1 / 10 ^ 8 \<le> sx" "1 / 10 ^ 8 \<le> sy"
  shows "generateGridSlices self =
     Inr (\<lparr> plane_origin = ((x0 + x1) / 2, 0, 0), plane_normal = (1, 0, 0),
             heights = map (\<lambda>i. (real i - real (nat \<lceil>(x1 - x0) / 2 / sx\<rceil>)) * sx)
                         [0 ..< 2 * nat \<lceil>(x1 - x0) / 2 / sx\<rceil> + 1] \<rparr>,
          \<lparr> plane_origin = (0, (y0 + y1) / 2, 0), plane_normal = (0, 1, 0),
             heights = map (\<lambda>i. (real i - real (nat \<lceil>(y1 - y0) / 2 / sy\<rceil>)) * sy)
                         [0 ..< 2 * nat \<lceil>(y1 - y0) / 2 / sy\<rceil> + 1] \<rparr>)"
proof -
  have g0: "getitem (priv_gridSpacing self) 0 = Inr sx"
    and g1: "getitem (priv_gridSpacing self) 1 = Inr sy"
    by (simp_all add: grid(1) getitem_def)
  show ?thesis
    unfolding generateGridSlices_def
    by (simp only: vol box(1) g0 g1 option.case prod.case sum.case Let_def
        arange_about_centre [OF box(2) grid(2)] arange_about_centre [OF box(3) grid(3)])
qed

text \<open>
  Claim C9, as amended. For a support volume whose bounding box is 10 mm wide in X and Y
  and centred at the origin, with \<open>gridSpacing = (3, 3)\<close>, \<open>generateGridSlices\<close> asks for
  the X-slices at the plane offsets \<open>-6, -3, 0, 3, 6\<close> from the centre and for the
  Y-slices likewise: multiples of the spacing, placed symmetrically around the centre of
  the bounding box.
\<close>

theorem generateGridSlices_offsets:
  assumes "priv_supportVolume self = Some supportGeom"
    and "bounds supportGeom = ((-5, -5, z0), (5, 5, z1))"
    and "priv_gridSpacing self = [3, 3]"
  shows "generateGridSlices self =
     Inr (\<lparr> plane_origin = (0, 0, 0), plane_normal = (1, 0, 0),
             heights = [-6, -3, 0, 3, 6] \<rparr>,
          \<lparr> plane_origin = (0, 0, 0), plane_normal = (0, 1, 0),
             heights = [-6, -3, 0, 3, 6] \<rparr>)"
  using assms
  by (simp add: generateGridSlices_def getitem_def arange_def Let_def
      ceiling_five_thirds ceiling_slice_count upt_rec)

theorem generateGridSlices_offsets_witness:
  "priv_supportVolume gridBlock10 = Some block10 \<and>
   bounds block10 = ((-5, -5, 0), (5, 5, 10)) \<and>
   priv_gridSpacing gridBlock10 = [3, 3] \<and>
   generateGridSlices gridBlock10 =
     Inr (\<lparr> plane_origin = (0, 0, 0), plane_normal = (1, 0, 0),
             heights = [-6, -3, 0, 3, 6] \<rparr>,
          \<lparr> plane_origin = (0, 0, 0), plane_normal = (0, 1, 0),
             heights = [-6, -3, 0, 3, 6] \<rparr>)"
proof -
  have v: "priv_supportVolume gridBlock10 = Some block10"
    by (simp add: gridBlock10_def GridBlockSupport_init_def)
  have b: "bounds block10 = ((-5, -5, 0), (5, 5, 10))"
    by (simp add: block10_def)
  have g: "priv_gridSpacing gridBlock10 = [3, 3]"
    by (simp add: gridBlock10_def GridBlockSupport_init_def)
  from generateGridSlices_offsets [OF v b g] v b g show ?thesis by simp
qed

text \<open>
  Claim C9 as the specification states it fails on the block of 10 by 10 by 10 mm: the
  slices are not taken at \<open>-4.5, -1.5, 1.5, 4.5\<close>.
\<close>

theorem generateGridSlices_not_half_offsets:
  "generateGridSlices gridBlock10 \<noteq>
     Inr (\<lparr> plane_origin = (0, 0, 0), plane_normal = (1, 0, 0),
             heights = [-4.5, -1.5, 1.5, 4.5] \<rparr>,
          \<lparr> plane_origin = (0, 0, 0), plane_normal = (0, 1, 0),
             heights = [-4.5, -1.5, 1.5, 4.5] \<rparr>)"
  by (simp add: generateGridSlices_def getitem_def arange_def Let_def gridBlock10_def
      GridBlockSupport_init_def block10_def ceiling_five_thirds ceiling_slice_count upt_rec)

subsection \<open>Overhang edges\<close>

lemma edgeVertices_in_range:
  assumes "\<forall>(a, b)\<in>set es. a < length vs \<and> b < length vs"
  shows "edgeVertices vs es = Inr (map (\<lambda>(a, b). (vs ! a, vs ! b)) es)"
  using assms by (induction es) (auto simp: getitem_def)

lemma overhangEdgeTest_in_range:
  assumes i: "i < length (face_adjacency mesh)"
    and angles: "length (face_adjacency_angles mesh) = length (face_adjacency mesh)"
    and faces: "\<forall>(f0, f1)\<in>set (face_adjacency mesh). f0 < length theta \<and> f1 < length theta"
    and edge: "edges_unique mesh ! i = (a, b)"
  shows "overhangEdgeTest mesh theta oa ea i (vertices mesh ! a, vertices mesh ! b) =
           Inr (overhangEdgeCondition 89 mesh theta oa ea i)"
proof -
  obtain f0 f1 where f: "face_adjacency mesh ! i = (f0, f1)"
    by (cases "face_adjacency mesh ! i")
  with faces have "f0 < length theta" "f1 < length theta"
    using nth_mem [OF i] by auto
  with i f angles edge show ?thesis
    by (auto simp: overhangEdgeTest_def overhangEdgeCondition_def getitem_def
        split: option.splits)
qed

lemma overhangEdgeLoop_filter:
  assumes "\<forall>k<length evs.
             overhangEdgeTest mesh theta oa ea (i + k) (evs ! k) = Inr (P (i + k))"
  shows "overhangEdgeLoop mesh theta oa ea i evs acc =
           Inr (acc @ map (\<lambda>k. edges_unique mesh ! k) (filter P [i ..< i + length evs]))"
  using assms
proof (induction evs arbitrary: i acc)
  case Nil
  then show ?case by simp
next
  case (Cons ev evs)
  from Cons.prems have first: "overhangEdgeTest mesh theta oa ea i ev = Inr (P i)"
    by (metis add.right_neutral length_greater_0_conv list.distinct(1) nth_Cons_0)
  have others: "\<forall>k<length evs.
      overhangEdgeTest mesh theta oa ea (Suc i + k) (evs ! k) = Inr (P (Suc i + k))"
    using Cons.prems by (metis Suc_less_eq add_Suc_right add_Suc length_Cons nth_Cons_Suc)
  have range: "[i ..< i + length (ev # evs)] = i # [Suc i ..< Suc i + length evs]"
    by (subst upt_conv_Cons) simp_all
  show ?case
    unfolding range using first Cons.IH [OF others] by simp
qed

text \<open>
  Claim C3, as amended. On a mesh whose indices are in range, \<open>findOverhangEdges\<close>
  returns exactly the edges that satisfy all three conditions: the magnitude of the
  vertical inclination of the edge is below \<open>edgeAngle\<close>, both faces incident to the edge
  are inclined by more than 89 degrees from \<open>+z\<close> (a fixed bound, not \<open>surfaceAngle\<close>),
  and the angle between the two faces exceeds \<open>surfaceAngle\<close>.
\<close>

theorem findOverhangEdges_condition:
  assumes "indicesInRange (geometry part) (getSupportAngles part (0, 0, 1))"
  shows "findOverhangEdges getSupportAngles part surfaceAngle edgeAng =
           Inr (map (\<lambda>i. edges_unique (geometry part) ! i)
                  (filter (overhangEdgeCondition 89 (geometry part)
                             (getSupportAngles part (0, 0, 1)) surfaceAngle edgeAng)
                     [0 ..< length (edges_unique (geometry part))]))"
proof -
  let ?mesh = "geometry part" and ?theta = "getSupportAngles part (0, 0, 1)"
  let ?es = "edges_unique ?mesh" and ?vs = "vertices ?mesh"
  let ?evs = "map (\<lambda>(a, b). (?vs ! a, ?vs ! b)) ?es"
  from assms have ev: "edgeVertices ?vs ?es = Inr ?evs"
    by (intro edgeVertices_in_range) (simp add: indicesInRange_def)
  have tests: "\<forall>k<length ?evs.
      overhangEdgeTest ?mesh ?theta surfaceAngle edgeAng (0 + k) (?evs ! k) =
        Inr (overhangEdgeCondition 89 ?mesh ?theta surfaceAngle edgeAng (0 + k))"
  proof (intro allI impI)
    fix k assume k: "k < length ?evs"
    obtain a b where ab: "?es ! k = (a, b)" by (cases "?es ! k")
    have "overhangEdgeTest ?mesh ?theta surfaceAngle edgeAng k (?vs ! a, ?vs ! b) =
        Inr (overhangEdgeCondition 89 ?mesh ?theta surfaceAngle edgeAng k)"
      using assms k ab by (intro overhangEdgeTest_in_range) (auto simp: indicesInRange_def)
    then show "overhangEdgeTest ?mesh ?theta surfaceAngle edgeAng (0 + k) (?evs ! k) =
        Inr (overhangEdgeCondition 89 ?mesh ?theta surfaceAngle edgeAng (0 + k))"
      using k ab by simp
  qed
  show ?thesis
    using ev overhangEdgeLoop_filter [OF tests, of "[]"]
    by (simp add: findOverhangEdges_def Let_def)
qed

lemma gablePrism_in_range:
  "indicesInRange (geometry gablePrism) (gablePrismAngles gablePrism (0, 0, 1))"
  by (simp add: indicesInRange_def gablePrism_def gablePrismAngles_def)

theorem findOverhangEdges_condition_witness:
  "indicesInRange (geometry gablePrism) (gablePrismAngles gablePrism (0, 0, 1)) \<and>
   findOverhangEdges gablePrismAngles gablePrism 45 10 =
     Inr (map (nth (edges_unique (geometry gablePrism)))
            (filter (overhangEdgeCondition 89 (geometry gablePrism)
                       (gablePrismAngles gablePrism (0, 0, 1)) 45 10)
               [0 ..< length (edges_unique (geometry gablePrism))]))"
  using findOverhangEdges_condition [where part = gablePrism
      and getSupportAngles = gablePrismAngles and surfaceAngle = 45 and edgeAng = 10]
    gablePrism_in_range
  by simp

text \<open>The angles of the edges of the gable prism.\<close>

lemma rad2deg_arcsin_steep:
  assumes "2 / 9 \<le> x" "x \<le> 1"
  shows "10 \<le> rad2deg (arcsin x)"
proof -
  have "sin (pi / 18) \<le> pi / 18" by (rule sin_x_le_x) simp
  also have "\<dots> \<le> 2 / 9" using pi_less_4 by simp
  finally have s: "sin (pi / 18) \<le> x" using assms by simp
  have "arcsin (sin (pi / 18)) \<le> arcsin x"
    using s assms by (intro arcsin_le_arcsin) (auto intro: order_trans [OF _ sin_ge_minus_one])
  moreover have "arcsin (sin (pi / 18)) = pi / 18"
    by (rule arcsin_sin) (use pi_gt_zero in auto)
  ultimately have "pi / 18 \<le> arcsin x" by simp
  then have "pi / 18 * (180 / pi) \<le> arcsin x * (180 / pi)"
    by (intro mult_right_mono) auto
  then show ?thesis by (simp add: rad2deg_def)
qed

lemma rad2deg_above_45: "1 \<le> x \<Longrightarrow> rad2deg x > 45"
proof -
  assume x: "1 \<le> x"
  have "45 * pi < 180 * 1" using pi_less_4 by simp
  also have "\<dots> \<le> 180 * x" using x by simp
  finally show ?thesis using pi_gt_zero by (simp add: rad2deg_def field_simps)
qed

lemma rad2deg_zero: "rad2deg 0 = 0"
  by (simp add: rad2deg_def)

lemma sqrt_25: "sqrt 25 = 5" by (rule real_sqrt_unique) simp_all
lemma sqrt_36: "sqrt 36 = 6" by (rule real_sqrt_unique) simp_all
lemma sqrt_144: "sqrt 144 = 12" by (rule real_sqrt_unique) simp_all
lemma sqrt_169: "sqrt 169 = 13" by (rule real_sqrt_unique) simp_all

lemma gablePrism_level_edges:
  "edgeAngle ((0, 0, 4), (12, 0, 4)) = Some 0"
  "edgeAngle ((0, 3, 0), (0, -3, 0)) = Some 0"
  "edgeAngle ((0, 3, 0), (12, 3, 0)) = Some 0"
  "edgeAngle ((0, 3, 0), (12, -3, 0)) = Some 0"
  "edgeAngle ((0, -3, 0), (12, -3, 0)) = Some 0"
  "edgeAngle ((12, 3, 0), (12, -3, 0)) = Some 0"
  by (simp_all add: edgeAngle_def Let_def sqrt_144 sqrt_36 rad2deg_zero)

lemma gablePrism_sloped_edges:
  "edgeAngle ((0, 0, 4), (0, 3, 0)) = Some (rad2deg (arcsin (4 / 5)))"
  "edgeAngle ((0, 0, 4), (0, -3, 0)) = Some (rad2deg (arcsin (4 / 5)))"
  "edgeAngle ((12, 0, 4), (12, 3, 0)) = Some (rad2deg (arcsin (4 / 5)))"
  "edgeAngle ((12, 0, 4), (12, -3, 0)) = Some (rad2deg (arcsin (4 / 5)))"
  "edgeAngle ((0, 0, 4), (12, 3, 0)) = Some (rad2deg (arcsin (4 / 13)))"
  "edgeAngle ((12, 0, 4), (0, -3, 0)) = Some (rad2deg (arcsin (4 / 13)))"
  by (simp_all add: edgeAngle_def Let_def sqrt_25 sqrt_169)

lemma gablePrism_steep:
  "\<not> \<bar>rad2deg (arcsin (4 / 5))\<bar> < 10" "\<not> \<bar>rad2deg (arcsin (4 / 13))\<bar> < 10"
  using rad2deg_arcsin_steep [of "4 / 5"] rad2deg_arcsin_steep [of "4 / 13"] by simp_all

text \<open>
  Claim C3 as the specification states it fails on the gable prism with
  \<open>surfaceAngle = 45\<close> and \<open>edgeAngle = 10\<close>. The ridge (edge 0, between the roof faces 0
  and 2) is level, both its faces are inclined by 53.13 degrees, more than 45, and the angle
  between them is 106 degrees: the three conditions of the claim hold for it. The code
  returns the two edges between the gables and the floor only.
\<close>

theorem findOverhangEdges_omits_ridge:
  "findOverhangEdges gablePrismAngles gablePrism 45 10 = Inr [(2, 3), (4, 5)] \<and>
   edges_unique (geometry gablePrism) ! 0 = (0, 1) \<and>
   overhangEdgeSpec (geometry gablePrism) (gablePrismAngles gablePrism (0, 0, 1)) 45 10 0"
proof (intro conjI)
  show "findOverhangEdges gablePrismAngles gablePrism 45 10 = Inr [(2, 3), (4, 5)]"
    by (simp add: findOverhangEdges_def gablePrism_def gablePrismAngles_def getitem_def Let_def
        overhangEdgeTest_def gablePrism_level_edges gablePrism_sloped_edges gablePrism_steep
        rad2deg_above_45 rad2deg_zero)
  show "edges_unique (geometry gablePrism) ! 0 = (0, 1)"
    by (simp add: gablePrism_def)
  show "overhangEdgeSpec (geometry gablePrism) (gablePrismAngles gablePrism (0, 0, 1)) 45 10 0"
    by (simp add: overhangEdgeSpec_def overhangEdgeCondition_def gablePrism_def
        gablePrismAngles_def gablePrism_level_edges rad2deg_above_45)
qed

subsection \<open>The gradient threshold and the height map\<close>

text \<open>
  Claim C4. For the ray projection resolution \<open>r\<close> and the overhang angle \<open>theta\<close> in
  degrees, the gradient threshold is \<open>5 * tan(theta * pi / 180) * r\<close>; the contours of a
  region are extracted at this threshold, taken at the generator's
  \<open>rayProjectionResolution\<close> and \<open>overhangAngle\<close>, under the mask of the pixels whose
  (padded) height exceeds 2.
\<close>

theorem gradThreshold_contours:
  "gradThreshold r theta = 5 * tan (theta * pi / 180) * r \<and>
   segmentOutlines self region heightMap =
     find_contours region (padHeightMap heightMap)
       (5 * tan (overhangAngle self * pi / 180) * rayProjectionResolution self)
       (map (map (\<lambda>h. h > 2)) (padHeightMap heightMap))"
  by (simp add: gradThreshold_def segmentOutlines_def deg2rad_def Let_def)

lemma foldr_max_length_rect:
  assumes "\<forall>row\<in>set xs. length row = w" "xs \<noteq> []"
  shows "foldr (\<lambda>r. max (length r)) xs 0 = w"
  using assms
proof (induction xs)
  case Nil
  then show ?case by simp
next
  case (Cons r rs)
  then show ?case by (cases "rs = []") auto
qed

lemma transpose_rect_nth:
  assumes rect: "\<forall>row\<in>set xs. length row = w" and x: "x < w" and y: "y < length xs"
  shows "transpose xs ! x ! y = xs ! y ! x"
proof -
  from y have ne: "xs \<noteq> []" by auto
  have len: "length (transpose xs) = w"
    by (simp add: length_transpose foldr_max_length_rect [OF rect ne])
  have all: "filter (\<lambda>ys. x < length ys) xs = xs"
    using rect x by (simp add: filter_id_conv)
  have "transpose xs ! x = map (\<lambda>r. r ! x) xs"
    using nth_transpose [of x xs] len x all by simp
  then show ?thesis using y by simp
qed

lemma assignMasked_nth:
  assumes "y < length target" "length selected = length target"
    and "length source = length target" "x < length (target ! y)"
    and "length (selected ! y) = length (target ! y)"
    and "length (source ! y) = length (target ! y)"
  shows "assignMasked target selected source ! y ! x =
      (if selected ! y ! x then source ! y ! x else target ! y ! x)"
  using assms by (simp add: assignMasked_def)

lemma map_length_rect:
  assumes "length img = h" "\<forall>row\<in>set img. length row = w"
  shows "map length img = replicate h w"
  using assms by (auto intro!: nth_equalityI)

text \<open>
  Claim C7. For two rasters of the same shape (\<open>h\<close> rows of \<open>w\<close> pixels), the combined
  height map holds, at every pixel, the value of \<open>lowerImg\<close> where that exceeds \<open>1.01\<close>
  and the value of \<open>upperImg\<close> otherwise; \<open>upperImg\<close> is the raster of the overhang
  patch and \<open>lowerImg\<close> the vertically flipped raster of the upper cut mesh. The method
  returns the combined map transposed, so that its first index runs along the rows of the
  two images.
\<close>

theorem heightMap_combination:
  assumes "length upper = h" "\<forall>row\<in>set upper. length row = w"
    and "length lower = h" "\<forall>row\<in>set lower. length row = w"
  shows "\<exists>heightMap2.
           identifySelfIntersectionHeightMap upper lower =
             Inr (transpose heightMap2, upper, flipud lower) \<and>
           (\<forall>y<h. \<forall>x<w.
              heightMap2 ! y ! x =
                (if flipud lower ! y ! x > 1.01 then flipud lower ! y ! x
                 else upper ! y ! x) \<and>
              transpose heightMap2 ! x ! y = heightMap2 ! y ! x)"
proof -
  let ?lowerImg = "flipud lower"
  let ?mask = "map (map (\<lambda>v. v > 1.01)) ?lowerImg"
  let ?hm2 = "assignMasked upper ?mask ?lowerImg"
  have lo_len: "length ?lowerImg = h" and lo_rect: "\<forall>row\<in>set ?lowerImg. length row = w"
    using assms by (simp_all add: flipud_def)
  have mask_len: "length ?mask = h" and mask_rect: "\<forall>row\<in>set ?mask. length row = w"
    using lo_len lo_rect by auto
  have shapes: "map length ?mask = map length upper"
    using map_length_rect [OF mask_len mask_rect] map_length_rect [OF assms(1,2)] by simp
  have res: "identifySelfIntersectionHeightMap upper lower =
      Inr (transpose ?hm2, upper, ?lowerImg)"
    using shapes by (simp add: identifySelfIntersectionHeightMap_def Let_def)
  have cell: "?hm2 ! y ! x =
      (if ?lowerImg ! y ! x > 1.01 then ?lowerImg ! y ! x else upper ! y ! x)"
    if "y < h" "x < w" for x y
  proof -
    have a: "length (upper ! y) = w" using assms that by simp
    have b: "length (?lowerImg ! y) = w" using lo_len lo_rect that by simp
    show ?thesis
      using assignMasked_nth [of y upper ?mask ?lowerImg x] that assms(1) lo_len a b
      by simp
  qed
  have len: "length ?hm2 = h" using assms(1) lo_len by (simp add: assignMasked_def)
  have rect: "\<forall>row\<in>set ?hm2. length row = w"
  proof
    fix row assume "row \<in> set ?hm2"
    then obtain y where y: "y < length ?hm2" and row: "row = ?hm2 ! y"
      by (auto simp: in_set_conv_nth)
    have yh: "y < h" using y len by simp
    have "length (upper ! y) = w" using assms yh by simp
    moreover have "length (?lowerImg ! y) = w" using lo_len lo_rect yh by simp
    ultimately show "length row = w"
      using yh assms(1) lo_len unfolding row by (simp add: assignMasked_def)
  qed
  have "\<forall>y<h. \<forall>x<w.
      ?hm2 ! y ! x = (if ?lowerImg ! y ! x > 1.01 then ?lowerImg ! y ! x
                     else upper ! y ! x) \<and>
      transpose ?hm2 ! x ! y = ?hm2 ! y ! x"
    using cell transpose_rect_nth [OF rect] len by simp
  with res show ?thesis by blast
qed

theorem heightMap_combination_witness:
  "identifySelfIntersectionHeightMap [[10, 10, 10], [10, 12, 12]] [[0, 4, 4], [0, 0, 0]] =
     Inr ([[10, 10], [10, 4], [10, 4]],
          [[10, 10, 10], [10, 12, 12]], [[0, 0, 0], [0, 4, 4]]) \<and>
   [[10, 10], [10, 4], [10, 4]] ! 2 ! 1 = [[0 :: real, 0, 0], [0, 4, 4]] ! 1 ! 2 \<and>
   [[10, 10], [10, 4], [10, 4]] ! 2 ! 0 = [[10 :: real, 10, 10], [10, 12, 12]] ! 0 ! 2"
proof -
  let ?upper = "[[10 :: real, 10, 10], [10, 12, 12]]"
  let ?lower = "[[0 :: real, 4, 4], [0, 0, 0]]"
  let ?H = "[[10 :: real, 10], [10, 4], [10, 4]]"
  have run: "identifySelfIntersectionHeightMap ?upper ?lower =
      Inr (?H, ?upper, [[0, 0, 0], [0, 4, 4]])"
    by (simp add: identifySelfIntersectionHeightMap_def flipud_def assignMasked_def Let_def)
  have "\<exists>heightMap2.
      identifySelfIntersectionHeightMap ?upper ?lower =
        Inr (transpose heightMap2, ?upper, flipud ?lower) \<and>
      (\<forall>y<2. \<forall>x<3.
         heightMap2 ! y ! x =
           (if flipud ?lower ! y ! x > 1.01 then flipud ?lower ! y ! x else ?upper ! y ! x) \<and>
         transpose heightMap2 ! x ! y = heightMap2 ! y ! x)"
    by (rule heightMap_combination) simp_all
  then obtain heightMap2 where
    res: "identifySelfIntersectionHeightMap ?upper ?lower =
        Inr (transpose heightMap2, ?upper, flipud ?lower)" and
    cells: "\<forall>y<2. \<forall>x<3.
         heightMap2 ! y ! x =
           (if flipud ?lower ! y ! x > 1.01 then flipud ?lower ! y ! x else ?upper ! y ! x) \<and>
         transpose heightMap2 ! x ! y = heightMap2 ! y ! x"
    by blast
  from res run have H: "transpose heightMap2 = ?H" by simp
  from cells have "transpose heightMap2 ! 2 ! 1 = flipud ?lower ! 1 ! 2"
    by (simp add: flipud_def)
  moreover from cells have "transpose heightMap2 ! 2 ! 0 = ?upper ! 0 ! 2"
    by (simp add: flipud_def)
  ultimately show ?thesis using run H by (simp add: flipud_def)
qed

subsection \<open>The region loop\<close>




text \<open>A region whose shrunk outline is missing or below the area threshold is skipped too.\<close>

lemma processRegion_small_area:
  assumes "offsetShape r = None \<or>
           (\<exists>shape. offsetShape r = Some shape \<and> shape_area shape < minimumAreaThreshold self)"
  shows "processRegion self part fs bound r = Inr (bound, [])"
  using assms by (auto simp: processRegion_def split: sum.splits)


text \<open>
  Every block that the second inner loop appends carries \<open>intersectsPart = True\<close>,
  whichever lower cap it has.
\<close>

lemma supportLoop_flags:
  assumes "supportLoop self part r ps acc = Inr bs"
  shows "\<exists>new. bs = acc @ new \<and> (\<forall>b\<in>set new. priv_intersectsPart b)"
  using assms
proof (induction ps arbitrary: acc)
  case Nil
  then show ?case by simp
next
  case (Cons bp ps)
  let ?base = "BlockSupportBase part (BlockSupportMesh bp BasePlate) (subregion r) True"
  let ?cut = "BlockSupportBase part (BlockSupportMesh bp OnCutMesh) (subregion r) True"
  from Cons.prems consider
      "supportLoop self part r ps acc = Inr bs"
    | "supportLoop self part r ps (acc @ [?base]) = Inr bs"
    | "supportLoop self part r ps (acc @ [?cut]) = Inr bs"
    by (auto simp: Let_def split: if_splits)
  then show ?case
  proof cases
    case 1
    then show ?thesis by (rule Cons.IH)
  next
    case 2
    from Cons.IH [OF 2] obtain new where
      "bs = (acc @ [?base]) @ new" "\<forall>b\<in>set new. priv_intersectsPart b" by blast
    then have "bs = acc @ (?base # new) \<and> (\<forall>b\<in>set (?base # new). priv_intersectsPart b)"
      by (simp add: BlockSupportBase_def)
    then show ?thesis by blast
  next
    case 3
    from Cons.IH [OF 3] obtain new where
      "bs = (acc @ [?cut]) @ new" "\<forall>b\<in>set new. priv_intersectsPart b" by blast
    then have "bs = acc @ (?cut # new) \<and> (\<forall>b\<in>set (?cut # new). priv_intersectsPart b)"
      by (simp add: BlockSupportBase_def)
    then show ?thesis by blast
  qed
qed

text \<open>
  With \<open>findSelfIntersectingSupport\<close> off, a region whose cut mesh reaches the tolerance
  appends no block.
\<close>

lemma processRegion_flag_off:
  assumes "\<not> fs" "\<not> cutMesh_volume r < intersectionVolumeTolerance"
    and "processRegion self part fs bound r = Inr (bound', blocks)"
  shows "blocks = []"
  using assms
  by (auto simp: processRegion_def split: sum.splits option.splits if_splits offsetShape.splits)


text \<open>The runs of the example regions, on a generator with the default parameters.\<close>

lemma cantilever_heightMap:
  "identifySelfIntersectionHeightMap [[10, 10], [10, 10]] [[0, 0], [0, 0]] =
     Inr ([[10, 10], [10, 10]], [[10, 10], [10, 10]], [[0, 0], [0, 0]])"
  by (simp add: identifySelfIntersectionHeightMap_def flipud_def assignMasked_def Let_def)

lemma shelf_heightMap:
  "identifySelfIntersectionHeightMap [[30, 30], [30, 30]] [[26, 26], [26, 26]] =
     Inr ([[26, 26], [26, 26]], [[30, 30], [30, 30]], [[26, 26], [26, 26]])"
  by (simp add: identifySelfIntersectionHeightMap_def flipud_def assignMasked_def Let_def)

lemma cantilever_run:
  "processRegion BlockSupportGenerator_init part fs bound cantileverRegion =
     Inr (True, [BlockSupportBase part (BlockSupportMesh cantileverColumn BasePlate)
                   cantileverPatch True])"
  by (simp add: processRegion_def flattenSupportRegion_def getitem_def cantileverRegion_def
      cantileverPatch_def BlockSupportGenerator_init_def minimumAreaThreshold_def
      intersectionVolumeTolerance_def cantilever_heightMap segmentOutlines_def
      cantileverOutline_def cantileverColumn_def Let_def)

lemma shelf_run:
  "processRegion BlockSupportGenerator_init part fs bound shelfRegion =
     (if fs then Inr (True, [BlockSupportBase part (BlockSupportMesh shelfColumn OnCutMesh)
                               shelfPatch True])
      else Inr (True, []))"
  by (simp add: processRegion_def flattenSupportRegion_def getitem_def shelfRegion_def
      shelfPatch_def BlockSupportGenerator_init_def minimumAreaThreshold_def
      intersectionVolumeTolerance_def shelf_heightMap segmentOutlines_def
      shelfColumn_def Let_def)


text \<open>
  Claim C1. The flag \<open>intersectsPart\<close> of an emitted block should say whether the support
  volume meets the part by more than the tolerance of 50; a column whose downward rays
  find no hit, and whose bottom therefore stays on the build plate, should be emitted with
  \<open>intersectsPart = False\<close>. On the cantilever the cut mesh has the volume 0 and the rays
  are not even cast, the lower cap of the block is the base plate, and the block is emitted
  with \<open>intersectsPart = True\<close>.
\<close>

theorem basePlate_block_flagged_intersecting:
  "identifySupportRegions (\<lambda>p a c. [cantileverRegion]) BlockSupportGenerator_init
     ''plate'' 45 True =
     Inr [BlockSupportBase ''plate'' (BlockSupportMesh cantileverColumn BasePlate)
            cantileverPatch True] \<and>
   intersectsPart (BlockSupportBase ''plate'' (BlockSupportMesh cantileverColumn BasePlate)
                     cantileverPatch True) \<and>
   cutMesh_volume cantileverRegion < intersectionVolumeTolerance"
proof -
  have "cutMesh_volume cantileverRegion < intersectionVolumeTolerance"
    by (simp add: cantileverRegion_def intersectionVolumeTolerance_def)
  then show ?thesis
    by (simp add: identifySupportRegions_def cantilever_run intersectsPart_def
        BlockSupportBase_def)
qed

text \<open>
  Claim C2. With \<open>findSelfIntersectingSupport = False\<close> every emitted block should have
  \<open>intersectsPart = False\<close>. On a part with the shelf and the cantilever the shelf, whose
  column cuts the part, is left out as the claim says; the column of the cantilever, which
  stands on the build plate, is emitted with \<open>intersectsPart = True\<close>.
\<close>

theorem findSelfIntersecting_false_block_flagged:
  "identifySupportRegions (\<lambda>p a c. [shelfRegion, cantileverRegion]) BlockSupportGenerator_init
     ''bracket'' 45 False =
     Inr [BlockSupportBase ''bracket'' (BlockSupportMesh cantileverColumn BasePlate)
            cantileverPatch True] \<and>
   map intersectsPart
     [BlockSupportBase ''bracket'' (BlockSupportMesh cantileverColumn BasePlate)
        cantileverPatch True] = [True]"
  by (simp add: identifySupportRegions_def cantilever_run shelf_run intersectsPart_def
      BlockSupportBase_def)

end
